theory Spec2Isabelle
  imports Main "HOL-Library.Sublist"
begin

section \<open>JavaScript string primitives used by the client\<close>

text \<open>
  Strings are lists of code units. Every string operation of the client that is modelled here
  (\<^verbatim>\<open>startsWith\<close>, \<^verbatim>\<open>includes\<close>, \<^verbatim>\<open>split\<close>, concatenation, comparison with a literal)
  works unit by unit, so the width of a unit plays no role.
\<close>

fun startsWith :: "string \<Rightarrow> string \<Rightarrow> bool" where
  "startsWith s [] = True"
| "startsWith [] (c # p) = False"
| "startsWith (x # s) (c # p) = (x = c \<and> startsWith s p)"

fun includes_str :: "string \<Rightarrow> string \<Rightarrow> bool" where
  "includes_str [] p = (p = [])"
| "includes_str (x # s) p = (startsWith (x # s) p \<or> includes_str s p)"

text \<open>\<^verbatim>\<open>s.split(c)\<close> for a one-character separator: never empty, \<^verbatim>\<open>''.split('/')\<close> is \<^verbatim>\<open>['']\<close>.\<close>

fun split_str :: "string \<Rightarrow> char \<Rightarrow> string list" where
  "split_str [] c = [[]]"
| "split_str (x # s) c =
     (if x = c then [] # split_str s c
      else (case split_str s c of [] \<Rightarrow> [[x]] | h # t \<Rightarrow> (x # h) # t))"

text \<open>\<^verbatim>\<open>a || b\<close> on strings: the empty string is falsy.\<close>

definition or_str :: "string \<Rightarrow> string \<Rightarrow> string" where
  "or_str a b = (if a = [] then b else a)"

text \<open>\<^verbatim>\<open>a || b\<close> where \<^verbatim>\<open>a\<close> may be undefined (\<open>None\<close>) or a string.\<close>

definition or_opt :: "string option \<Rightarrow> string \<Rightarrow> string" where
  "or_opt a b = (case a of None \<Rightarrow> b | Some s \<Rightarrow> or_str s b)"

text \<open>
  Decimal rendering of an integer, as \<^verbatim>\<open>Number.prototype.toString\<close> gives it for an integer
  of absolute value below \<^verbatim>\<open>1e21\<close>. The numbers the client prints are of that kind: a clock
  reading in milliseconds, an HTTP status, and the issue numbers, which it makes itself as
  index + 1.
\<close>

definition digit :: "nat \<Rightarrow> char" where
  "digit n = ''0123456789'' ! (n mod 10)"

function decimal :: "nat \<Rightarrow> string" where
  "decimal n = (if n < 10 then [digit n] else decimal (n div 10) @ [digit n])"
  by pat_completeness auto
termination
  by (relation "measure (\<lambda>n. n)") auto

definition number_toString :: "int \<Rightarrow> string" where
  "number_toString i = (if i < 0 then CHR ''-'' # decimal (nat (- i)) else decimal (nat i))"

section \<open>apiService.ts: the stream connection\<close>

record websocket_message =
  ws_content :: string
  ws_timestamp :: nat
  isAgent :: bool

text \<open>
  \<^verbatim>\<open>WS_BASE_URL = import.meta.env.VITE_WS_BASE_URL || 'ws://localhost:8000'\<close>; the environment
  variable is a parameter.
\<close>

definition WS_BASE_URL :: "string option \<Rightarrow> string" where
  "WS_BASE_URL VITE_WS_BASE_URL = or_opt VITE_WS_BASE_URL ''ws://localhost:8000''"

record location =
  protocol :: string
  host :: string

text \<open>The URL that \<^verbatim>\<open>createAgentWebSocket\<close> hands to \<^verbatim>\<open>new WebSocket\<close>.\<close>

definition wsUrl :: "string \<Rightarrow> location \<Rightarrow> string \<Rightarrow> string" where
  "wsUrl base loc clientId =
     (if startsWith base ''/'' then
        (let protocol' = (if protocol loc = ''https:'' then ''wss:'' else ''ws:'');
             host' = host loc
         in protocol' @ ''//'' @ host' @ base @ ''/issue-logs/'' @ clientId)
      else base @ ''/issue-logs/'' @ clientId)"

text \<open>
  The three handlers that deliver to \<^verbatim>\<open>onMessage\<close>. Each returns the list of messages it passes
  to the consumer; \<open>now\<close> is the clock read by \<^verbatim>\<open>new Date()\<close>.
\<close>

definition socket_onmessage :: "nat \<Rightarrow> string \<Rightarrow> websocket_message list" where
  "socket_onmessage now text =
     [\<lparr>ws_content = text, ws_timestamp = now, isAgent = startsWith text ''AGENT:''\<rparr>]"

definition socket_onerror :: "nat \<Rightarrow> websocket_message list" where
  "socket_onerror now =
     [\<lparr>ws_content = ''Error: Connection to agent failed. Please try again.'',
       ws_timestamp = now, isAgent = True\<rparr>]"

definition socket_onclose :: "nat \<Rightarrow> nat \<Rightarrow> websocket_message list" where
  "socket_onclose now code =
     (if code \<noteq> 1000 then
        [\<lparr>ws_content = ''Connection to agent closed. The analysis may be complete.'',
          ws_timestamp = now, isAgent = True\<rparr>]
      else [])"

section \<open>ChatPage.tsx: the message consumer\<close>

record message =
  msg_id :: string
  msg_content :: string
  isUser :: bool
  msg_timestamp :: nat

record chat_state =
  messages :: "message list"
  isTyping :: bool

text \<open>\<^verbatim>\<open>onMessage\<close> of the page; \<open>now\<close> is \<^verbatim>\<open>Date.now()\<close>.\<close>

definition onMessage :: "nat \<Rightarrow> chat_state \<Rightarrow> websocket_message \<Rightarrow> chat_state" where
  "onMessage now st m =
     (let botMessage = \<lparr>msg_id = number_toString (int now), msg_content = ws_content m,
                         isUser = (\<not> isAgent m), msg_timestamp = ws_timestamp m\<rparr>
      in st\<lparr>isTyping := False, messages := messages st @ [botMessage]\<rparr>)"

text \<open>The two class attributes the page computes for a message bubble.\<close>

definition rowClass :: "message \<Rightarrow> string" where
  "rowClass m = ''flex '' @ (if isUser m then ''justify-end'' else ''justify-start'')"

definition bubbleClass :: "message \<Rightarrow> string" where
  "bubbleClass m = ''max-w-[85%] p-4 rounded-2xl shadow-sm '' @
     (if isUser m then ''bg-primary text-white rounded-br-none''
      else ''bg-white text-gray-800 rounded-bl-none'')"

section \<open>JSON values and thrown values\<close>

text \<open>
  A value produced by \<^verbatim>\<open>JSON.parse\<close> or \<^verbatim>\<open>response.json()\<close> and used at type
  \<^verbatim>\<open>any\<close>. An object is the list of its own properties, each name once. Numbers are
  carried as integers: the client only tests them for zero and prints them.
\<close>

datatype js_value =
  JUndefined | JNull | JBool bool | JNum int | JStr string
| JArr "js_value list" | JObj "(string \<times> js_value) list"

text \<open>
  What a \<^verbatim>\<open>throw\<close> or a rejected promise carries: an instance of \<^verbatim>\<open>Error\<close> (of one of three
  classes, with its message), or any other value.
\<close>

datatype error_class = Error | TypeError | SyntaxError

datatype thrown = Instance error_class string | Value js_value

fun truthy :: "js_value \<Rightarrow> bool" where
  "truthy JUndefined = False"
| "truthy JNull = False"
| "truthy (JBool b) = b"
| "truthy (JNum n) = (n \<noteq> 0)"
| "truthy (JStr s) = (s \<noteq> [])"
| "truthy (JArr xs) = True"
| "truthy (JObj kvs) = True"

text \<open>\<^verbatim>\<open>a || b\<close> on values.\<close>

definition or_js :: "js_value \<Rightarrow> js_value \<Rightarrow> js_value" where
  "or_js a b = (if truthy a then a else b)"

fun isArray :: "js_value \<Rightarrow> bool" where
  "isArray (JArr xs) = True"
| "isArray v = False"

fun elements :: "js_value \<Rightarrow> js_value list" where
  "elements (JArr xs) = xs"
| "elements v = []"

text \<open>
  Reading a property \<^verbatim>\<open>v.name\<close>. On \<^verbatim>\<open>null\<close> and \<^verbatim>\<open>undefined\<close> the read throws a
  \<^verbatim>\<open>TypeError\<close>; on an object it gives the property or \<^verbatim>\<open>undefined\<close>; on the other values
  it gives \<^verbatim>\<open>undefined\<close>, which is right for the names the client reads (\<^verbatim>\<open>issues\<close>,
  \<^verbatim>\<open>title\<close>, \<^verbatim>\<open>description\<close>, \<^verbatim>\<open>url\<close>, \<^verbatim>\<open>creator_name\<close>, \<^verbatim>\<open>detail\<close>,
  \<^verbatim>\<open>client_id\<close>): no built-in prototype defines them. The message of the error is the one of
  V8, with the property name in single quotes.
\<close>

fun get :: "js_value \<Rightarrow> string \<Rightarrow> js_value" where
  "get (JObj kvs) name = (case map_of kvs name of None \<Rightarrow> JUndefined | Some v \<Rightarrow> v)"
| "get v name = JUndefined"

definition quoted :: "string \<Rightarrow> string" where
  "quoted name = [CHR 0x27] @ name @ [CHR 0x27]"

definition read_prop :: "js_value \<Rightarrow> string \<Rightarrow> thrown + js_value" where
  "read_prop v name =
     (case v of
        JUndefined \<Rightarrow>
          Inl (Instance TypeError
                (''Cannot read properties of undefined (reading '' @ quoted name @ '')''))
      | JNull \<Rightarrow>
          Inl (Instance TypeError
                (''Cannot read properties of null (reading '' @ quoted name @ '')''))
      | _ \<Rightarrow> Inr (get v name))"

fun join :: "string list \<Rightarrow> string \<Rightarrow> string" where
  "join [] sep = []"
| "join [x] sep = x"
| "join (x # y # ys) sep = x @ sep @ join (y # ys) sep"

text \<open>
  The string conversion that a template literal and \<^verbatim>\<open>new Error(v)\<close> apply. An array prints
  its elements separated by commas, with \<^verbatim>\<open>null\<close> and \<^verbatim>\<open>undefined\<close> elements empty. An
  object prints as \<^verbatim>\<open>[object Object]\<close> through the method it inherits; an own property
  \<^verbatim>\<open>toString\<close> hides that method and, coming from JSON, is not callable, so the conversion
  throws a \<^verbatim>\<open>TypeError\<close>. The conversion of an array stops at the first element that throws.
\<close>

fun toString :: "js_value \<Rightarrow> thrown + string"
  and elements_toString :: "js_value list \<Rightarrow> thrown + string list" where
  "toString JUndefined = Inr ''undefined''"
| "toString JNull = Inr ''null''"
| "toString (JBool b) = Inr (if b then ''true'' else ''false'')"
| "toString (JNum n) = Inr (number_toString n)"
| "toString (JStr s) = Inr s"
| "toString (JArr xs) =
     (case elements_toString xs of Inl e \<Rightarrow> Inl e | Inr ss \<Rightarrow> Inr (join ss '',''))"
| "toString (JObj kvs) =
     (case map_of kvs ''toString'' of
        Some v \<Rightarrow> Inl (Instance TypeError ''Cannot convert object to primitive value'')
      | None \<Rightarrow> Inr ''[object Object]'')"
| "elements_toString [] = Inr []"
| "elements_toString (x # xs) =
     (case (if x = JUndefined \<or> x = JNull then Inr [] else toString x) of
        Inl e \<Rightarrow> Inl e
      | Inr s \<Rightarrow>
          (case elements_toString xs of Inl e \<Rightarrow> Inl e | Inr ss \<Rightarrow> Inr (s # ss)))"

text \<open>
  \<^verbatim>\<open>throw new Error(v)\<close>: the constructor converts its argument to the message, and what is
  thrown is the new error, or the \<^verbatim>\<open>TypeError\<close> of a conversion that fails.
\<close>

definition throw_new_Error :: "js_value \<Rightarrow> thrown" where
  "throw_new_Error v =
     (if v = JUndefined then Instance Error []
      else (case toString v of Inl e \<Rightarrow> e | Inr m \<Rightarrow> Instance Error m))"

section \<open>The Issue interface and the HTTP layer\<close>

record issue_user =
  login :: string
  avatar_url :: string

text \<open>
  The \<^verbatim>\<open>Issue\<close> interface of IssueCard. The service reads the user through \<^verbatim>\<open>issue.user?.login\<close>,
  so an absent user is part of the model. The two numbers are integers: the client makes them
  itself, as index + 1.
\<close>

record issue =
  issue_id :: int
  title :: string
  body :: string
  number :: int
  html_url :: string
  user :: "issue_user option"
  created_at :: string

record issue_detail =
  d_title :: string
  description :: string
  creator_name :: string
  status :: string
  url :: string

text \<open>The value given to \<^verbatim>\<open>JSON.stringify\<close> for the request body.\<close>

datatype request_body =
  IssueBody issue_detail
| RepoBody string

record request =
  req_url :: string
  req_method :: string
  req_headers :: "(string \<times> string) list"
  req_mode :: "string option"
  req_credentials :: "string option"
  req_body :: request_body

text \<open>
  A received response. \<open>res_text\<close> is \<^verbatim>\<open>await response.text()\<close>, \<open>text_json\<close> is what
  \<^verbatim>\<open>JSON.parse\<close> makes of that text (\<open>None\<close> when it throws) and \<open>res_json\<close> is
  \<^verbatim>\<open>await response.json()\<close>: any JSON value, since nothing validates it against the interface
  the caller declares, or the error of a body that is not JSON.
\<close>

record response =
  ok :: bool
  res_status :: nat
  res_text :: string
  text_json :: "js_value option"
  res_json :: "thrown + js_value"

definition API_BASE_URL :: "string option \<Rightarrow> string" where
  "API_BASE_URL VITE_API_BASE_URL = or_opt VITE_API_BASE_URL ''http://localhost:8000''"

text \<open>
  The value of \<^verbatim>\<open>errorMessage\<close> for a response that is not ok; the same code in
  \<^verbatim>\<open>processIssueWithAgent\<close> and \<^verbatim>\<open>fetchGitHubIssues\<close>. The inner \<^verbatim>\<open>try\<close> covers both the parse
  and the read of \<^verbatim>\<open>errorData.detail\<close>. The detail of the backend may be any JSON value.
\<close>

definition errorMessage :: "response \<Rightarrow> js_value" where
  "errorMessage response =
     (let errorText = res_text response;
          fallback = JStr (''Backend API error: '' @ number_toString (int (res_status response)) @
                     '' - '' @ take 100 errorText)
      in case text_json response of
           None \<Rightarrow> fallback
         | Some errorData \<Rightarrow>
             (case read_prop errorData ''detail'' of
                Inl parseError \<Rightarrow> fallback
              | Inr detail \<Rightarrow>
                  or_js detail
                    (JStr (''API error: '' @ number_toString (int (res_status response))))))"

section \<open>apiService.ts: submitting an issue\<close>

definition issueDetail :: "issue \<Rightarrow> issue_detail" where
  "issueDetail issue =
     \<lparr>d_title = title issue,
      description = body issue,
      creator_name = or_opt (map_option login (user issue)) ''Unknown'',
      status = ''open'',
      url = html_url issue\<rparr>"

definition processIssue_request :: "string option \<Rightarrow> issue \<Rightarrow> request" where
  "processIssue_request env issue =
     \<lparr>req_url = API_BASE_URL env @ ''/process-issue/'',
      req_method = ''POST'',
      req_headers = [(''Content-Type'', ''application/json''), (''Accept'', ''application/json'')],
      req_mode = None,
      req_credentials = None,
      req_body = IssueBody (issueDetail issue)\<rparr>"

text \<open>
  \<^verbatim>\<open>processIssueWithAgent\<close>: \<open>Inl\<close> is a rejected promise. The outer \<^verbatim>\<open>catch\<close> logs and
  rethrows what it caught. The promise resolves with what \<^verbatim>\<open>response.json()\<close> gives, whatever
  its shape.
\<close>

definition processIssueWithAgent ::
  "(request \<Rightarrow> thrown + response) \<Rightarrow> string option \<Rightarrow> issue \<Rightarrow> thrown + js_value" where
  "processIssueWithAgent fetch env issue =
     (case fetch (processIssue_request env issue) of
        Inl error \<Rightarrow> Inl error
      | Inr response \<Rightarrow>
          if \<not> ok response then Inl (throw_new_Error (errorMessage response))
          else res_json response)"

section \<open>githubService.ts\<close>

record repo_info =
  owner :: string
  repo :: string

definition normalizedUrl :: "string \<Rightarrow> string" where
  "normalizedUrl u = (if includes_str u ''github.com'' then u else ''https://github.com/'' @ u)"

text \<open>\<^verbatim>\<open>pathname.split('/').filter(Boolean)\<close>\<close>

definition pathParts :: "string \<Rightarrow> string list" where
  "pathParts pathname = filter (\<lambda>s. s \<noteq> []) (split_str pathname CHR ''/'')"

text \<open>
  \<^verbatim>\<open>extractRepoInfo\<close> of the string \<open>u\<close>. The URL parser of the platform is a parameter: \<open>url_pathname u\<close> is
  \<^verbatim>\<open>new URL(u).pathname\<close>, and \<open>None\<close> when the constructor throws.
\<close>

definition extractRepoInfo :: "(string \<Rightarrow> string option) \<Rightarrow> string \<Rightarrow> repo_info option" where
  "extractRepoInfo url_pathname u =
     (case url_pathname (normalizedUrl u) of
        None \<Rightarrow> None
      | Some pathname \<Rightarrow>
          (let parts = pathParts pathname
           in if length parts \<ge> 2 then Some \<lparr>owner = parts ! 0, repo = parts ! 1\<rparr>
              else None))"

text \<open>
  The callback of \<^verbatim>\<open>data.issues.map\<close>. The first property read throws on a \<^verbatim>\<open>null\<close> element.
  \<open>now\<close> is \<^verbatim>\<open>new Date().toISOString()\<close>.
\<close>

definition adaptIssue :: "string \<Rightarrow> nat \<Rightarrow> js_value \<Rightarrow> thrown + js_value" where
  "adaptIssue now index backendIssue =
     (case read_prop backendIssue ''title'' of
        Inl e \<Rightarrow> Inl e
      | Inr t \<Rightarrow>
          Inr (JObj
            [(''id'', JNum (int index + 1)),
             (''number'', JNum (int index + 1)),
             (''title'', or_js t (JStr ''Untitled Issue'')),
             (''body'', or_js (get backendIssue ''description'') (JStr '''')),
             (''html_url'', get backendIssue ''url''),
             (''created_at'', JStr now),
             (''user'', JObj
                [(''login'', or_js (get backendIssue ''creator_name'') (JStr ''Unknown User'')),
                 (''avatar_url'', JStr
                    ''https://github.githubassets.com/images/modules/logos_page/GitHub-Mark.png'')])]))"

text \<open>\<^verbatim>\<open>Array.prototype.map\<close> with that callback, from index \<open>index\<close> on; \<open>clock i\<close> is the
  time read for element \<open>i\<close>.\<close>

fun adaptIssues :: "(nat \<Rightarrow> string) \<Rightarrow> nat \<Rightarrow> js_value list \<Rightarrow> thrown + js_value list" where
  "adaptIssues clock index [] = Inr []"
| "adaptIssues clock index (backendIssue # rest) =
     (case adaptIssue (clock index) index backendIssue of
        Inl e \<Rightarrow> Inl e
      | Inr adapted \<Rightarrow>
          (case adaptIssues clock (Suc index) rest of
             Inl e \<Rightarrow> Inl e
           | Inr others \<Rightarrow> Inr (adapted # others)))"

definition fetchIssues_request :: "string option \<Rightarrow> string \<Rightarrow> request" where
  "fetchIssues_request env cleanRepoUrl =
     \<lparr>req_url = or_opt env ''http://localhost:8000'' @ ''/fetch-issues/'',
      req_method = ''POST'',
      req_headers = [(''Content-Type'', ''application/json''), (''Accept'', ''application/json'')],
      req_mode = Some ''cors'',
      req_credentials = Some ''omit'',
      req_body = RepoBody cleanRepoUrl\<rparr>"

text \<open>The \<^verbatim>\<open>catch\<close> of \<^verbatim>\<open>fetchGitHubIssues\<close>: an \<^verbatim>\<open>Error\<close> is rethrown, anything else replaced.\<close>

definition rethrow :: "thrown + 'a \<Rightarrow> thrown + 'a" where
  "rethrow r =
     (case r of
        Inl (Value v) \<Rightarrow>
          Inl (Instance Error ''An unknown error occurred while fetching issues from the backend.'')
      | _ \<Rightarrow> r)"

text \<open>The first step of \<^verbatim>\<open>fetchGitHubIssues\<close>: a protocol is put before a string that does
  not start with \<^verbatim>\<open>http\<close>.\<close>

definition formattedUrl :: "string \<Rightarrow> string" where
  "formattedUrl repoUrl =
     (if \<not> startsWith repoUrl ''http'' then ''https://'' @ repoUrl else repoUrl)"

definition cleanRepoUrl :: "repo_info \<Rightarrow> string" where
  "cleanRepoUrl repoInfo = ''https://github.com/'' @ owner repoInfo @ ''/'' @ repo repoInfo"

text \<open>
  \<^verbatim>\<open>fetchGitHubIssues\<close>. The result is the list of requests handed to \<^verbatim>\<open>fetch\<close> and the
  outcome of the promise.
\<close>

definition fetchGitHubIssues ::
  "(string \<Rightarrow> string option) \<Rightarrow> (request \<Rightarrow> thrown + response) \<Rightarrow> string option
   \<Rightarrow> (nat \<Rightarrow> string) \<Rightarrow> string \<Rightarrow> request list \<times> (thrown + js_value list)" where
  "fetchGitHubIssues url_pathname fetch env clock repoUrl =
     (case extractRepoInfo url_pathname (formattedUrl repoUrl) of
        None \<Rightarrow> ([], Inl (Instance Error ''Invalid GitHub repository URL format''))
      | Some repoInfo \<Rightarrow>
          (let req = fetchIssues_request env (cleanRepoUrl repoInfo)
           in ([req],
               rethrow
                 (case fetch req of
                    Inl e \<Rightarrow> Inl e
                  | Inr response \<Rightarrow>
                      if \<not> ok response then Inl (throw_new_Error (errorMessage response))
                      else (case res_json response of
                              Inl e \<Rightarrow> Inl e
                            | Inr data \<Rightarrow>
                                if truthy data \<and> truthy (get data ''issues'')
                                   \<and> isArray (get data ''issues'')
                                then adaptIssues clock 0 (elements (get data ''issues''))
                                else Inr [])))))"

text \<open>
  The result of \<^verbatim>\<open>askBotToResolve\<close>. Its \<^verbatim>\<open>clientId\<close> is whatever the property \<^verbatim>\<open>client_id\<close>
  of the response is, and \<^verbatim>\<open>undefined\<close> where the result has no such property.
\<close>

record ask_result =
  success :: bool
  ask_message :: string
  clientId :: js_value

text \<open>The \<^verbatim>\<open>catch\<close> block of \<^verbatim>\<open>askBotToResolve\<close>.\<close>

definition askBot_catch :: "thrown \<Rightarrow> ask_result" where
  "askBot_catch error =
     \<lparr>success = False,
      ask_message =
        (case error of
           Instance c m \<Rightarrow> m
         | Value v \<Rightarrow> ''An unknown error occurred while processing the issue''),
      clientId = JUndefined\<rparr>"

text \<open>
  \<^verbatim>\<open>askBotToResolve\<close>. \<open>Inl\<close> would be an exception that reaches the caller; the \<^verbatim>\<open>try\<close>
  encloses the whole body, so that it also catches the \<^verbatim>\<open>TypeError\<close> of reading
  \<^verbatim>\<open>response.client_id\<close> on a response that is \<^verbatim>\<open>null\<close>.
\<close>

definition askBotToResolve ::
  "(request \<Rightarrow> thrown + response) \<Rightarrow> string option \<Rightarrow> issue \<Rightarrow> thrown + ask_result" where
  "askBotToResolve fetch env issue =
     (case processIssueWithAgent fetch env issue of
        Inr response \<Rightarrow>
          (case read_prop response ''client_id'' of
             Inr cid \<Rightarrow>
               Inr \<lparr>success = True,
                    ask_message = ''Bot is analyzing issue #'' @ number_toString (number issue) @
                                  '': '' @ title issue,
                    clientId = cid\<rparr>
           | Inl error \<Rightarrow> Inr (askBot_catch error))
      | Inl error \<Rightarrow> Inr (askBot_catch error))"

section \<open>Index.tsx and ChatPage.tsx: from the submission to the stream connection\<close>

datatype ui_effect =
  SetProcessingIssueId "int option"
| Navigate string issue js_value
| ToastSuccess string
| ToastError string

text \<open>
  \<^verbatim>\<open>handleAskBot\<close> of the index page, as the list of its effects in order. The page navigates
  only when the result is a success with a truthy \<^verbatim>\<open>clientId\<close>.
\<close>

definition handleAskBot ::
  "(request \<Rightarrow> thrown + response) \<Rightarrow> string option \<Rightarrow> issue \<Rightarrow> ui_effect list" where
  "handleAskBot fetch env issue =
     [SetProcessingIssueId (Some (issue_id issue))] @
     (case askBotToResolve fetch env issue of
        Inl error \<Rightarrow> [ToastError ''Failed to process request'']
      | Inr result \<Rightarrow>
          if success result \<and> truthy (clientId result)
          then [Navigate ''/chat'' issue (clientId result), ToastSuccess (ask_message result)]
          else [ToastError (or_str (ask_message result) ''Failed to process request'')]) @
     [SetProcessingIssueId None]"

text \<open>
  The effect of the chat page that opens the connection, given the \<^verbatim>\<open>clientId\<close> of the
  navigation state: a socket is created only for a truthy \<^verbatim>\<open>clientId\<close>, which the template
  literal of \<^verbatim>\<open>createAgentWebSocket\<close> converts to a string. The result is the URL of that
  socket, or the error of the conversion.
\<close>

definition chatPage_connect ::
  "string option \<Rightarrow> location \<Rightarrow> js_value \<Rightarrow> thrown + string option" where
  "chatPage_connect wsEnv loc cid =
     (if truthy cid then
        (case toString cid of
           Inl e \<Rightarrow> Inl e
         | Inr c \<Rightarrow> Inr (Some (wsUrl (WS_BASE_URL wsEnv) loc c)))
      else Inr None)"

section \<open>The session broker of the backend\<close>

text \<open>
  Modelled from the spec: the data model of the broker (section 3), which is missing from the
  sources: the backend (\<^verbatim>\<open>backend/app\<close>) is not among them. A log event has a content, an
  origin and a sequence number; a session has an id, a state, its events in order, the
  subscriber flag and its time of creation.
\<close>

datatype origin = System | Agent | ErrorOrigin

datatype session_state = Pending | Running | Completed | Failed | Closed

record log_event =
  ev_content :: string
  origin :: origin
  sequence :: nat

record session =
  sid :: string
  state :: session_state
  events :: "log_event list"
  subscriberAttached :: bool
  createdAt :: nat

text \<open>
  Modelled from the spec: \<^verbatim>\<open>Registry.create\<close> (section 4.1), which is missing from the sources.
  It inserts a \<open>Pending\<close> session with no events; the fresh id and the time are parameters.
\<close>

definition create :: "string \<Rightarrow> nat \<Rightarrow> session" where
  "create fresh_id now =
     \<lparr>sid = fresh_id, state = Pending, events = [], subscriberAttached = False, createdAt = now\<rparr>"

text \<open>
  Modelled from the spec: the transition of a session to \<open>Closed\<close> (section 3), which is missing
  from the sources. A closed session holds no subscriber.
\<close>

definition close_session :: "session \<Rightarrow> session" where
  "close_session s = s\<lparr>state := Closed, subscriberAttached := False\<rparr>"

text \<open>
  Modelled from the spec: the two ways an \<^verbatim>\<open>append\<close> ends (section 4.2), which is missing from
  the sources. Both are normal returns: the call has no way to fail towards the producer.
\<close>

datatype append_outcome = Stored log_event | Dropped

text \<open>
  Modelled from the spec: \<^verbatim>\<open>append\<close> of the session's event queue (section 4.2), which is
  missing from the sources. It assigns the next sequence number and stores the event; on a
  \<open>Closed\<close> session it is a logged no-op.
\<close>

definition session_append :: "session \<Rightarrow> string \<Rightarrow> origin \<Rightarrow> append_outcome \<times> session" where
  "session_append s c orig =
     (if state s = Closed then (Dropped, s)
      else (let e = \<lparr>ev_content = c, origin = orig, sequence = length (events s)\<rparr>
            in (Stored e, s\<lparr>events := events s @ [e]\<rparr>)))"

text \<open>
  Modelled from the spec: the \<^verbatim>\<open>onEvent\<close> callback of the dispatcher (section 4.3), which is
  missing from the sources. It calls \<^verbatim>\<open>session.append\<close> and returns nothing to the executor.
\<close>

definition onEvent :: "session \<Rightarrow> string \<times> origin \<Rightarrow> session" where
  "onEvent s ev = snd (session_append s (fst ev) (snd ev))"

text \<open>
  Modelled from the spec: what a cursor answers when asked for the next event (section 4.2),
  which is missing from the sources: an event, a suspension until the next append, or the
  end of the stream.
\<close>

datatype cursor_step = Yield log_event | Suspend | End

text \<open>
  Modelled from the spec: \<^verbatim>\<open>subscribe()\<close> (section 4.2), which is missing from the sources. A
  cursor is a position in the event list; a fresh one always starts at zero.
\<close>

definition subscribe :: "session \<Rightarrow> nat" where
  "subscribe s = 0"

text \<open>
  Modelled from the spec: the cursor of \<^verbatim>\<open>subscribe()\<close> (section 4.2), which is missing from
  the sources. Asked for the next event it yields the event at its position; with nothing
  left it ends when the session is \<open>Closed\<close> and suspends otherwise.
\<close>

definition cursor_next :: "session \<Rightarrow> nat \<Rightarrow> cursor_step" where
  "cursor_next s pos =
     (if pos < length (events s) then Yield (events s ! pos)
      else if state s = Closed then End
      else Suspend)"

text \<open>
  Modelled from the spec: one producer and one subscriber running against a session (section
  5), which is missing from the sources. The two communicate through the event queue only, so
  a run is an interleaving of appends and of the subscriber asking its cursor for the next
  event. The subscriber records what it was given.
\<close>

datatype action = Append string origin | Poll

record subscriber =
  cursor :: nat
  received :: "log_event list"

text \<open>
  Modelled from the spec: one step of such a run (sections 4.2 and 5), which is missing from
  the sources. An append goes through \<^verbatim>\<open>onEvent\<close>; a read moves the cursor on when it yields.
\<close>

fun step :: "session \<times> subscriber \<Rightarrow> action \<Rightarrow> session \<times> subscriber" where
  "step (s, sub) (Append c orig) = (onEvent s (c, orig), sub)"
| "step (s, sub) Poll =
     (case cursor_next s (cursor sub) of
        Yield e \<Rightarrow> (s, \<lparr>cursor = Suc (cursor sub), received = received sub @ [e]\<rparr>)
      | Suspend \<Rightarrow> (s, sub)
      | End \<Rightarrow> (s, sub))"

text \<open>
  Modelled from the spec: a subscriber attaching to a session (section 4.4, step 3), which is
  missing from the sources. It starts with the cursor of \<^verbatim>\<open>subscribe()\<close> and nothing received.
\<close>

definition attach :: "session \<Rightarrow> session \<times> subscriber" where
  "attach s = (s, \<lparr>cursor = subscribe s, received = []\<rparr>)"

text \<open>
  Modelled from the spec: a whole run after the attach (section 5), which is missing from the
  sources.
\<close>

definition run :: "session \<Rightarrow> action list \<Rightarrow> session \<times> subscriber" where
  "run s acts = foldl step (attach s) acts"

text \<open>The content and origin of the appends of a run, in order.\<close>

fun appended :: "action list \<Rightarrow> (string \<times> origin) list" where
  "appended [] = []"
| "appended (Append c orig # as) = (c, orig) # appended as"
| "appended (Poll # as) = appended as"

text \<open>
  The invariant of a run: the stored events are numbered from zero without gaps, and the
  subscriber has received exactly the events before its cursor.
\<close>

definition in_order :: "session \<times> subscriber \<Rightarrow> bool" where
  "in_order r =
     (map sequence (events (fst r)) = [0..<length (events (fst r))]
      \<and> cursor (snd r) \<le> length (events (fst r))
      \<and> received (snd r) = take (cursor (snd r)) (events (fst r)))"

text \<open>
  Modelled from the spec: what the streaming gateway does on a connection (sections 4.4 and
  6), which is missing from the sources: it sends text frames and closes the connection with
  a code.
\<close>

datatype gateway_out = SendFrame string | CloseConnection nat

text \<open>
  Modelled from the spec: the normal-closure reason (section 4.4, step 5), which is missing
  from the sources. On a WebSocket connection it is the close code 1000.
\<close>

definition NORMAL_CLOSURE :: nat where
  "NORMAL_CLOSURE = 1000"

text \<open>
  Modelled from the spec: the frame of an event (section 6), which is missing from the
  sources: the content, with the prefix \<^verbatim>\<open>AGENT:\<close> for an event of agent origin.
\<close>

definition frame_of :: "log_event \<Rightarrow> string" where
  "frame_of e = (if origin e = Agent then ''AGENT:'' @ ev_content e else ev_content e)"

text \<open>
  Modelled from the spec: the forwarding loop of the streaming gateway (section 4.4, steps 3
  and 5), which is missing from the sources. Each yielded event is sent as a frame; when the
  cursor ends the connection is closed with the normal-closure code. The loop is given here
  for a session that no longer changes; where the cursor suspends it has nothing more to
  send.
\<close>

function gateway_forward :: "session \<Rightarrow> nat \<Rightarrow> gateway_out list" where
  "gateway_forward s pos =
     (case cursor_next s pos of
        Yield e \<Rightarrow> SendFrame (frame_of e) # gateway_forward s (Suc pos)
      | Suspend \<Rightarrow> []
      | End \<Rightarrow> [CloseConnection NORMAL_CLOSURE])"
  by pat_completeness auto
termination
  by (relation "measure (\<lambda>(s, pos). length (events s) - pos)")
     (auto simp: cursor_next_def split: if_splits)

declare gateway_forward.simps [simp del]

declare decimal.simps [simp del]

section \<open>Example inputs\<close>

definition example_issue :: issue where
  "example_issue =
     \<lparr>issue_id = 1, title = ''Crash on start'', body = ''It crashes.'', number = 1,
      html_url = ''https://github.com/facebook/react/issues/1'',
      user = Some \<lparr>login = ''octocat'', avatar_url = []\<rparr>,
      created_at = ''2024-01-01T00:00:00.000Z''\<rparr>"

text \<open>A backend that accepts the submission, a network that fails, and a backend that answers
  with status 500 and a JSON error body.\<close>

definition fetch_accepts :: "request \<Rightarrow> thrown + response" where
  "fetch_accepts req =
     Inr \<lparr>ok = True, res_status = 200, res_text = [], text_json = None,
          res_json = Inr (JObj [(''message'', JStr ''Processing started''),
                                (''client_id'', JStr ''abc123'')])\<rparr>"

definition fetch_fails :: "request \<Rightarrow> thrown + response" where
  "fetch_fails req = Inl (Instance TypeError ''Failed to fetch'')"

definition fetch_refuses :: "request \<Rightarrow> thrown + response" where
  "fetch_refuses req =
     Inr \<lparr>ok = False, res_status = 500, res_text = [],
          text_json = Some (JObj [(''detail'', JStr ''Agent unavailable'')]),
          res_json = Inl (Instance SyntaxError ''body already read'')\<rparr>"

text \<open>What \<^verbatim>\<open>new URL(u).pathname\<close> is for five strings (and a parser that rejects all others).\<close>

definition example_pathname :: "string \<Rightarrow> string option" where
  "example_pathname =
     map_of
       [(''https://github.com/facebook/react/issues'', ''/facebook/react/issues''),
        (''https://github.com/facebook/react'', ''/facebook/react''),
        (''https://github.com/facebook'', ''/facebook''),
        (''https://foo'', ''/''),
        (''https://github.com/https://foo'', ''/https://foo'')]"

text \<open>A backend that answers a request with status 200 and the JSON body \<open>data\<close>.\<close>

definition fetch_answers :: "js_value \<Rightarrow> request \<Rightarrow> thrown + response" where
  "fetch_answers data req =
     Inr \<lparr>ok = True, res_status = 200, res_text = [], text_json = Some data,
          res_json = Inr data\<rparr>"

definition example_clock :: "nat \<Rightarrow> string" where
  "example_clock i = ''2024-01-01T00:00:00.000Z''"


text \<open>A session with one buffered event.\<close>

definition example_session :: session where
  "example_session = foldl onEvent (create ''s1'' 0) [(''starting analysis'', System)]"

section \<open>Facts about the string primitives\<close>

lemma startsWith_iff_prefix: "startsWith s p \<longleftrightarrow> prefix p s"
  by (induction s p rule: startsWith.induct) auto

lemma startsWith_iff_append: "startsWith s p \<longleftrightarrow> (\<exists>rest. s = p @ rest)"
  by (simp add: startsWith_iff_prefix prefix_def)

section \<open>The stream connection\<close>

text \<open>
  C2. A text frame is classified as Agent-origin exactly when its content begins with
  \<^verbatim>\<open>AGENT:\<close>. The page stores the negation as \<open>isUser\<close>, and both class attributes of the
  rendered bubble are functions of that flag alone, with different values for the two classes
  of frames.
\<close>

theorem frame_classified_by_AGENT_prefix:
  "map isAgent (socket_onmessage now text) = [\<exists>rest. text = ''AGENT:'' @ rest]
   \<and> messages (foldl (onMessage now') st (socket_onmessage now text)) =
       messages st @ [\<lparr>msg_id = number_toString (int now'), msg_content = text,
                       isUser = (\<nexists>rest. text = ''AGENT:'' @ rest), msg_timestamp = now\<rparr>]
   \<and> rowClass (last (messages (foldl (onMessage now') st (socket_onmessage now text)))) =
       (if \<exists>rest. text = ''AGENT:'' @ rest then ''flex justify-start'' else ''flex justify-end'')
   \<and> bubbleClass (last (messages (foldl (onMessage now') st (socket_onmessage now text)))) =
       (if \<exists>rest. text = ''AGENT:'' @ rest
        then ''max-w-[85%] p-4 rounded-2xl shadow-sm bg-white text-gray-800 rounded-bl-none''
        else ''max-w-[85%] p-4 rounded-2xl shadow-sm bg-primary text-white rounded-br-none'')"
  by (simp add: socket_onmessage_def onMessage_def rowClass_def bubbleClass_def
      startsWith_iff_append)

lemma startsWith_includes: "startsWith s p \<Longrightarrow> includes_str s p"
  by (cases s) (auto elim: startsWith.elims)

lemma includes_self: "includes_str (p @ s) p"
  by (rule startsWith_includes) (simp add: startsWith_iff_prefix)

text \<open>
  C6. The URL of the stream connection ends with \<^verbatim>\<open>/issue-logs/\<close> followed by the
  \<^verbatim>\<open>clientId\<close>, whatever the configured base. For a base that starts with \<^verbatim>\<open>/\<close> the URL is
  built from the page's host, with the scheme \<^verbatim>\<open>wss:\<close> exactly when the page's protocol is
  \<^verbatim>\<open>https:\<close> and \<^verbatim>\<open>ws:\<close> otherwise.
\<close>

theorem stream_url_addressed_by_clientId:
  "suffix (''/issue-logs/'' @ cid) (wsUrl base loc cid)
   \<and> (startsWith base ''/'' \<longrightarrow>
        (\<exists>rest. wsUrl base loc cid =
            (if protocol loc = ''https:'' then ''wss:'' else ''ws:'') @ ''//'' @ host loc @ rest)
        \<and> (prefix ''wss:'' (wsUrl base loc cid) \<longleftrightarrow> protocol loc = ''https:''))"
  by (auto simp: wsUrl_def suffix_def Let_def)

theorem stream_url_addressed_by_clientId_witness:
  "startsWith (WS_BASE_URL (Some ''/ws'')) ''/''
   \<and> wsUrl (WS_BASE_URL (Some ''/ws'')) \<lparr>protocol = ''https:'', host = ''example.com''\<rparr> ''abc''
       = ''wss://example.com/ws/issue-logs/abc''
   \<and> prefix ''wss:''
        (wsUrl (WS_BASE_URL (Some ''/ws'')) \<lparr>protocol = ''https:'', host = ''example.com''\<rparr> ''abc'')"
  using stream_url_addressed_by_clientId
    [of "''abc''" "WS_BASE_URL (Some ''/ws'')" "\<lparr>protocol = ''https:'', host = ''example.com''\<rparr>"]
  by (simp add: WS_BASE_URL_def or_opt_def or_str_def wsUrl_def)

section \<open>The session broker\<close>

lemma gateway_forward_closed:
  "state s = Closed \<Longrightarrow>
   gateway_forward s pos =
     map (\<lambda>e. SendFrame (frame_of e)) (drop pos (events s)) @ [CloseConnection 1000]"
proof (induction "length (events s) - pos" arbitrary: pos)
  case 0
  then show ?case
    by (subst gateway_forward.simps) (simp add: cursor_next_def NORMAL_CLOSURE_def)
next
  case (Suc n)
  then have lt: "pos < length (events s)" by simp
  from Suc have "n = length (events s) - Suc pos" by simp
  from Suc.hyps(1)[OF this Suc.prems] lt show ?case
    by (subst gateway_forward.simps) (simp add: cursor_next_def Cons_nth_drop_Suc [symmetric])
qed

lemma onEvent_closed: "state s = Closed \<Longrightarrow> onEvent s ev = s"
  by (simp add: onEvent_def session_append_def)

lemma foldl_onEvent_closed: "state s = Closed \<Longrightarrow> foldl onEvent s evs = s"
  by (induction evs) (simp_all add: onEvent_closed)

text \<open>
  C4. On a session in state \<open>Closed\<close> an append returns normally with the outcome
  \<open>Dropped\<close> and the session as it was; after any number of further appends the session,
  its stored events and their count are unchanged.
\<close>

theorem append_after_close_is_noop:
  assumes "state s = Closed"
  shows "session_append s c orig = (Dropped, s)
    \<and> foldl onEvent s evs = s
    \<and> events (foldl onEvent s evs) = events s
    \<and> length (events (foldl onEvent s evs)) = length (events s)"
  using assms by (simp add: foldl_onEvent_closed session_append_def)

theorem append_after_close_is_noop_witness:
  "state (close_session (foldl onEvent (create ''s1'' 0) [(''done'', Agent)])) = Closed
   \<and> session_append (close_session (foldl onEvent (create ''s1'' 0) [(''done'', Agent)]))
        ''late'' System
      = (Dropped, close_session (foldl onEvent (create ''s1'' 0) [(''done'', Agent)]))
   \<and> events (foldl onEvent (close_session (foldl onEvent (create ''s1'' 0) [(''done'', Agent)]))
        [(''late'', System), (''later'', ErrorOrigin)])
      = [\<lparr>ev_content = ''done'', origin = Agent, sequence = 0\<rparr>]"
  using append_after_close_is_noop
    [of "close_session (foldl onEvent (create ''s1'' 0) [(''done'', Agent)])"
        "''late''" System "[(''late'', System), (''later'', ErrorOrigin)]"]
  by (simp add: close_session_def create_def onEvent_def session_append_def Let_def)

text \<open>
  C5. For a session in state \<open>Closed\<close> the gateway sends the remaining events and then
  closes the connection with code 1000. On the client, the close handler delivers nothing
  for code 1000 and delivers its one synthetic connection-closed message for every other
  code.
\<close>

theorem closed_session_normal_closure:
  "(state s = Closed \<longrightarrow>
      gateway_forward s pos =
        map (\<lambda>e. SendFrame (frame_of e)) (drop pos (events s)) @ [CloseConnection 1000])
   \<and> socket_onclose now 1000 = []
   \<and> (socket_onclose now code =
        [\<lparr>ws_content = ''Connection to agent closed. The analysis may be complete.'',
          ws_timestamp = now, isAgent = True\<rparr>]) = (code \<noteq> 1000)
   \<and> (socket_onclose now code = []) = (code = 1000)"
  by (simp add: gateway_forward_closed socket_onclose_def)

theorem closed_session_normal_closure_witness:
  "state (close_session (foldl onEvent (create ''s1'' 0) [(''done'', Agent)])) = Closed
   \<and> gateway_forward (close_session (foldl onEvent (create ''s1'' 0) [(''done'', Agent)])) 0
      = [SendFrame ''AGENT:done'', CloseConnection 1000]
   \<and> socket_onclose 7 1000 = []
   \<and> socket_onclose 7 1006 =
        [\<lparr>ws_content = ''Connection to agent closed. The analysis may be complete.'',
          ws_timestamp = 7, isAgent = True\<rparr>]"
  using closed_session_normal_closure
    [of "close_session (foldl onEvent (create ''s1'' 0) [(''done'', Agent)])" 0 7 1006]
  by (simp add: close_session_def create_def onEvent_def session_append_def frame_of_def
      socket_onclose_def Let_def)


section \<open>Submitting an issue\<close>

text \<open>
  C3. When the backend answers the submission with an ok response whose body consists of a
  text message and a token, \<^verbatim>\<open>processIssueWithAgent\<close> resolves with that body and
  \<^verbatim>\<open>askBotToResolve\<close> returns a success whose \<^verbatim>\<open>clientId\<close> is that token; with a non-empty
  token the index page navigates to the chat page with it and the chat page opens the stream
  connection at a URL ending with \<^verbatim>\<open>/issue-logs/\<close> and the token. When the submission fails
  (the request fails, the response is not ok, or its body is not JSON), \<^verbatim>\<open>processIssueWithAgent\<close>
  rejects; and whenever it rejects, the result has \<^verbatim>\<open>success = false\<close> and no \<^verbatim>\<open>clientId\<close>, and
  the page does not navigate.
\<close>

theorem submission_returns_token:
  "(\<forall>res body msg tok.
      fetch (processIssue_request env issue) = Inr res \<and> ok res \<and> res_json res = Inr body
      \<and> get body ''message'' = JStr msg \<and> get body ''client_id'' = JStr tok \<longrightarrow>
        processIssueWithAgent fetch env issue = Inr body
        \<and> (\<exists>m. askBotToResolve fetch env issue =
               Inr \<lparr>success = True, ask_message = m, clientId = JStr tok\<rparr>)
        \<and> (tok \<noteq> [] \<longrightarrow>
              Navigate ''/chat'' issue (JStr tok) \<in> set (handleAskBot fetch env issue)
              \<and> (\<exists>u. chatPage_connect wsEnv loc (JStr tok) = Inr (Some u)
                     \<and> suffix (''/issue-logs/'' @ tok) u)))
   \<and> ((\<exists>e. fetch (processIssue_request env issue) = Inl e)
       \<or> (\<exists>res. fetch (processIssue_request env issue) = Inr res
                \<and> (\<not> ok res \<or> (\<exists>e. res_json res = Inl e))) \<longrightarrow>
        (\<exists>e. processIssueWithAgent fetch env issue = Inl e))
   \<and> (\<forall>e. processIssueWithAgent fetch env issue = Inl e \<longrightarrow>
         (\<exists>m. askBotToResolve fetch env issue =
                Inr \<lparr>success = False, ask_message = m, clientId = JUndefined\<rparr>)
         \<and> (\<forall>p i c. Navigate p i c \<notin> set (handleAskBot fetch env issue)))"
proof -
  have accepted: "processIssueWithAgent fetch env issue = Inr body
        \<and> (\<exists>m. askBotToResolve fetch env issue =
               Inr \<lparr>success = True, ask_message = m, clientId = JStr tok\<rparr>)
        \<and> (tok \<noteq> [] \<longrightarrow>
              Navigate ''/chat'' issue (JStr tok) \<in> set (handleAskBot fetch env issue)
              \<and> (\<exists>u. chatPage_connect wsEnv loc (JStr tok) = Inr (Some u)
                     \<and> suffix (''/issue-logs/'' @ tok) u))"
    if h: "fetch (processIssue_request env issue) = Inr res \<and> ok res \<and> res_json res = Inr body
      \<and> get body ''message'' = JStr msg \<and> get body ''client_id'' = JStr tok"
    for res body msg tok
  proof -
    from h have nn: "body \<noteq> JNull" "body \<noteq> JUndefined" by auto
    from h have p: "processIssueWithAgent fetch env issue = Inr body"
      by (simp add: processIssueWithAgent_def)
    from nn h have rp: "read_prop body ''client_id'' = Inr (JStr tok)"
      by (cases body) (simp_all add: read_prop_def)
    from p rp have a: "\<exists>m. askBotToResolve fetch env issue =
               Inr \<lparr>success = True, ask_message = m, clientId = JStr tok\<rparr>"
      by (simp add: askBotToResolve_def)
    have n: "Navigate ''/chat'' issue (JStr tok) \<in> set (handleAskBot fetch env issue)"
      if "tok \<noteq> []"
      using that p rp by (simp add: handleAskBot_def askBotToResolve_def)
    have u: "\<exists>u. chatPage_connect wsEnv loc (JStr tok) = Inr (Some u)
          \<and> suffix (''/issue-logs/'' @ tok) u" if "tok \<noteq> []"
      using that by (auto simp: chatPage_connect_def wsUrl_def suffix_def Let_def)
    from p a n u show ?thesis by blast
  qed
  have failed: "\<exists>e. processIssueWithAgent fetch env issue = Inl e"
    if "(\<exists>e. fetch (processIssue_request env issue) = Inl e)
       \<or> (\<exists>res. fetch (processIssue_request env issue) = Inr res
                \<and> (\<not> ok res \<or> (\<exists>e. res_json res = Inl e)))"
    using that by (auto simp: processIssueWithAgent_def)
  have rejected: "(\<exists>m. askBotToResolve fetch env issue =
                Inr \<lparr>success = False, ask_message = m, clientId = JUndefined\<rparr>)
         \<and> (\<forall>p i c. Navigate p i c \<notin> set (handleAskBot fetch env issue))"
    if "processIssueWithAgent fetch env issue = Inl e" for e
    using that by (simp add: handleAskBot_def askBotToResolve_def askBot_catch_def)
  from accepted failed rejected show ?thesis by blast
qed

theorem submission_returns_token_witness:
  "processIssueWithAgent fetch_accepts None example_issue =
     Inr (JObj [(''message'', JStr ''Processing started''), (''client_id'', JStr ''abc123'')])
   \<and> askBotToResolve fetch_accepts None example_issue =
       Inr \<lparr>success = True, ask_message = ''Bot is analyzing issue #1: Crash on start'',
            clientId = JStr ''abc123''\<rparr>
   \<and> Navigate ''/chat'' example_issue (JStr ''abc123'')
        \<in> set (handleAskBot fetch_accepts None example_issue)
   \<and> chatPage_connect None \<lparr>protocol = ''http:'', host = ''localhost''\<rparr> (JStr ''abc123'')
       = Inr (Some ''ws://localhost:8000/issue-logs/abc123'')
   \<and> processIssueWithAgent fetch_fails None example_issue
       = Inl (Instance TypeError ''Failed to fetch'')
   \<and> askBotToResolve fetch_fails None example_issue =
       Inr \<lparr>success = False, ask_message = ''Failed to fetch'', clientId = JUndefined\<rparr>
   \<and> handleAskBot fetch_fails None example_issue =
       [SetProcessingIssueId (Some 1), ToastError ''Failed to fetch'', SetProcessingIssueId None]
   \<and> processIssueWithAgent fetch_refuses None example_issue
       = Inl (Instance Error ''Agent unavailable'')
   \<and> askBotToResolve fetch_refuses None example_issue =
       Inr \<lparr>success = False, ask_message = ''Agent unavailable'', clientId = JUndefined\<rparr>"
  using submission_returns_token
      [of fetch_accepts None example_issue None "\<lparr>protocol = ''http:'', host = ''localhost''\<rparr>"]
    submission_returns_token
      [of fetch_fails None example_issue None "\<lparr>protocol = ''http:'', host = ''localhost''\<rparr>"]
    submission_returns_token
      [of fetch_refuses None example_issue None "\<lparr>protocol = ''http:'', host = ''localhost''\<rparr>"]
  by (simp add: processIssueWithAgent_def askBotToResolve_def askBot_catch_def handleAskBot_def
      chatPage_connect_def wsUrl_def WS_BASE_URL_def or_opt_def or_str_def or_js_def
      fetch_accepts_def fetch_fails_def fetch_refuses_def example_issue_def
      number_toString_def decimal.simps digit_def read_prop_def errorMessage_def
      throw_new_Error_def)
text \<open>
  C7 (as amended). The submission record carries the title, the body as description and the
  URL of the issue unchanged, and the status \<^verbatim>\<open>open\<close>. The creator name is the login of the
  issue's user when that login is not empty; it is \<^verbatim>\<open>Unknown\<close> when the user is absent and
  also when the login is the empty string. The record is the body of the request.
\<close>

theorem issueDetail_carries_fields:
  "d_title (issueDetail i) = title i
   \<and> description (issueDetail i) = body i
   \<and> url (issueDetail i) = html_url i
   \<and> status (issueDetail i) = ''open''
   \<and> (\<forall>u. user i = Some u \<and> login u \<noteq> [] \<longrightarrow> creator_name (issueDetail i) = login u)
   \<and> (user i = None \<or> (\<exists>u. user i = Some u \<and> login u = [])
        \<longrightarrow> creator_name (issueDetail i) = ''Unknown'')
   \<and> req_body (processIssue_request env i) = IssueBody (issueDetail i)"
  by (auto simp: issueDetail_def processIssue_request_def or_opt_def or_str_def)

theorem issueDetail_carries_fields_witness:
  "user example_issue = Some \<lparr>login = ''octocat'', avatar_url = []\<rparr>
   \<and> login \<lparr>login = ''octocat'', avatar_url = []\<rparr> \<noteq> []
   \<and> creator_name (issueDetail example_issue) = ''octocat''
   \<and> user (example_issue\<lparr>user := None\<rparr>) = None
   \<and> creator_name (issueDetail (example_issue\<lparr>user := None\<rparr>)) = ''Unknown''
   \<and> d_title (issueDetail example_issue) = ''Crash on start''"
  using issueDetail_carries_fields [of example_issue]
    issueDetail_carries_fields [of "example_issue\<lparr>user := None\<rparr>"]
  by (simp add: example_issue_def)

theorem issueDetail_empty_login_counterexample:
  "user (example_issue\<lparr>user := Some \<lparr>login = [], avatar_url = []\<rparr>\<rparr>)
     = Some \<lparr>login = [], avatar_url = []\<rparr>
   \<and> creator_name (issueDetail (example_issue\<lparr>user := Some \<lparr>login = [], avatar_url = []\<rparr>\<rparr>))
     = ''Unknown''
   \<and> creator_name (issueDetail (example_issue\<lparr>user := Some \<lparr>login = [], avatar_url = []\<rparr>\<rparr>))
     \<noteq> login \<lparr>login = [], avatar_url = []\<rparr>"
  by (simp add: issueDetail_def example_issue_def or_opt_def or_str_def)

text \<open>
  C8 (as amended). \<^verbatim>\<open>askBotToResolve\<close> always returns a result and never throws. If the
  submission resolves with a value other than \<^verbatim>\<open>null\<close>, the result is a success whose
  \<^verbatim>\<open>clientId\<close> is the \<^verbatim>\<open>client_id\<close> of that value. If it resolves with \<^verbatim>\<open>null\<close>, the read of
  \<^verbatim>\<open>client_id\<close> throws inside the \<^verbatim>\<open>try\<close> and the result is a failure with the message of
  that \<^verbatim>\<open>TypeError\<close>. If it rejects with an \<^verbatim>\<open>Error\<close>, the result is a failure with that
  error's message; if it rejects with any other value, the result is a failure with the
  fixed text.
\<close>

theorem askBotToResolve_total:
  "(\<exists>result. askBotToResolve fetch env issue = Inr result)
   \<and> (\<forall>response. processIssueWithAgent fetch env issue = Inr response
          \<and> response \<noteq> JNull \<and> response \<noteq> JUndefined \<longrightarrow>
         (\<exists>m. askBotToResolve fetch env issue =
            Inr \<lparr>success = True, ask_message = m, clientId = get response ''client_id''\<rparr>))
   \<and> (processIssueWithAgent fetch env issue = Inr JNull \<longrightarrow>
         askBotToResolve fetch env issue =
           Inr \<lparr>success = False,
                ask_message = ''Cannot read properties of null (reading 'client_id')'',
                clientId = JUndefined\<rparr>)
   \<and> (\<forall>c m. processIssueWithAgent fetch env issue = Inl (Instance c m) \<longrightarrow>
         askBotToResolve fetch env issue =
           Inr \<lparr>success = False, ask_message = m, clientId = JUndefined\<rparr>)
   \<and> (\<forall>v. processIssueWithAgent fetch env issue = Inl (Value v) \<longrightarrow>
         askBotToResolve fetch env issue =
           Inr \<lparr>success = False,
                ask_message = ''An unknown error occurred while processing the issue'',
                clientId = JUndefined\<rparr>)"
proof (intro conjI allI impI)
  show "\<exists>result. askBotToResolve fetch env issue = Inr result"
    by (simp add: askBotToResolve_def split: sum.splits)
next
  fix response
  assume "processIssueWithAgent fetch env issue = Inr response
          \<and> response \<noteq> JNull \<and> response \<noteq> JUndefined"
  then show "\<exists>m. askBotToResolve fetch env issue =
            Inr \<lparr>success = True, ask_message = m, clientId = get response ''client_id''\<rparr>"
    by (cases response) (simp_all add: askBotToResolve_def read_prop_def)
next
  assume "processIssueWithAgent fetch env issue = Inr JNull"
  then show "askBotToResolve fetch env issue =
           Inr \<lparr>success = False,
                ask_message = ''Cannot read properties of null (reading 'client_id')'',
                clientId = JUndefined\<rparr>"
    by (simp add: askBotToResolve_def read_prop_def askBot_catch_def quoted_def)
next
  fix c m
  assume "processIssueWithAgent fetch env issue = Inl (Instance c m)"
  then show "askBotToResolve fetch env issue =
           Inr \<lparr>success = False, ask_message = m, clientId = JUndefined\<rparr>"
    by (simp add: askBotToResolve_def askBot_catch_def)
next
  fix v
  assume "processIssueWithAgent fetch env issue = Inl (Value v)"
  then show "askBotToResolve fetch env issue =
           Inr \<lparr>success = False,
                ask_message = ''An unknown error occurred while processing the issue'',
                clientId = JUndefined\<rparr>"
    by (simp add: askBotToResolve_def askBot_catch_def)
qed

theorem askBotToResolve_total_witness:
  "processIssueWithAgent fetch_accepts None (example_issue\<lparr>number := 42\<rparr>) =
     Inr (JObj [(''message'', JStr ''Processing started''), (''client_id'', JStr ''abc123'')])
   \<and> askBotToResolve fetch_accepts None (example_issue\<lparr>number := 42\<rparr>) =
       Inr \<lparr>success = True, ask_message = ''Bot is analyzing issue #42: Crash on start'',
            clientId = JStr ''abc123''\<rparr>
   \<and> processIssueWithAgent (fetch_answers (JObj [])) None example_issue = Inr (JObj [])
   \<and> askBotToResolve (fetch_answers (JObj [])) None example_issue =
       Inr \<lparr>success = True, ask_message = ''Bot is analyzing issue #1: Crash on start'',
            clientId = JUndefined\<rparr>
   \<and> processIssueWithAgent (fetch_answers JNull) None example_issue = Inr JNull
   \<and> success (projr (askBotToResolve (fetch_answers JNull) None example_issue)) = False
   \<and> processIssueWithAgent fetch_refuses None example_issue
       = Inl (Instance Error ''Agent unavailable'')
   \<and> askBotToResolve fetch_refuses None example_issue =
       Inr \<lparr>success = False, ask_message = ''Agent unavailable'', clientId = JUndefined\<rparr>
   \<and> processIssueWithAgent (\<lambda>req. Inl (Value (JStr ''aborted''))) None example_issue
       = Inl (Value (JStr ''aborted''))
   \<and> askBotToResolve (\<lambda>req. Inl (Value (JStr ''aborted''))) None example_issue =
       Inr \<lparr>success = False,
            ask_message = ''An unknown error occurred while processing the issue'',
            clientId = JUndefined\<rparr>"
  using askBotToResolve_total [of fetch_accepts None "example_issue\<lparr>number := 42\<rparr>"]
    askBotToResolve_total [of "fetch_answers (JObj [])" None example_issue]
    askBotToResolve_total [of "fetch_answers JNull" None example_issue]
    askBotToResolve_total [of fetch_refuses None example_issue]
    askBotToResolve_total [of "\<lambda>req. Inl (Value (JStr ''aborted''))" None example_issue]
  by (simp add: processIssueWithAgent_def askBotToResolve_def askBot_catch_def
      fetch_accepts_def fetch_refuses_def fetch_answers_def
      example_issue_def number_toString_def decimal.simps digit_def errorMessage_def
      read_prop_def or_js_def throw_new_Error_def)

text \<open>
  A status 200 answer with the body \<^verbatim>\<open>null\<close>: the submission resolves, and the result is a
  failure.
\<close>

theorem askBotToResolve_null_response_counterexample:
  "processIssueWithAgent (fetch_answers JNull) None example_issue = Inr JNull
   \<and> askBotToResolve (fetch_answers JNull) None example_issue =
       Inr \<lparr>success = False,
            ask_message = ''Cannot read properties of null (reading 'client_id')'',
            clientId = JUndefined\<rparr>"
  by (simp add: processIssueWithAgent_def askBotToResolve_def askBot_catch_def
      fetch_answers_def read_prop_def quoted_def)

section \<open>Listing the issues of a repository\<close>

lemma normalizedUrl_github: "includes_str u ''github.com'' \<Longrightarrow> normalizedUrl u = u"
  by (simp add: normalizedUrl_def)

lemma extractRepoInfo_two_parts:
  "url_pathname (normalizedUrl u) = Some p \<Longrightarrow> pathParts p = a # b # rest \<Longrightarrow>
   extractRepoInfo url_pathname u = Some \<lparr>owner = a, repo = b\<rparr>"
  by (simp add: extractRepoInfo_def Let_def)

lemma extractRepoInfo_too_short:
  "url_pathname (normalizedUrl u) = None
   \<or> (\<exists>p. url_pathname (normalizedUrl u) = Some p \<and> length (pathParts p) < 2) \<Longrightarrow>
   extractRepoInfo url_pathname u = None"
  by (auto simp: extractRepoInfo_def Let_def)

text \<open>
  C9 (as amended). For a URL that contains \<^verbatim>\<open>github.com\<close> and whose path has at least two
  non-empty segments, \<^verbatim>\<open>extractRepoInfo\<close> returns the first two as owner and repo, whatever
  follows them. When the URL that \<^verbatim>\<open>fetchGitHubIssues\<close> validates (its argument, with
  \<^verbatim>\<open>https://\<close> put before it unless it starts with \<^verbatim>\<open>http\<close>) contains \<^verbatim>\<open>github.com\<close> and
  does not parse or has fewer than two path segments, the call throws the error
  \<^verbatim>\<open>Invalid GitHub repository URL format\<close> and hands no request to \<^verbatim>\<open>fetch\<close>.
\<close>

theorem extractRepoInfo_on_github_urls:
  "(includes_str u ''github.com'' \<and> url_pathname u = Some p \<and> pathParts p = a # b # rest
      \<longrightarrow> extractRepoInfo url_pathname u = Some \<lparr>owner = a, repo = b\<rparr>)
   \<and> (includes_str (formattedUrl repoUrl) ''github.com''
       \<and> (url_pathname (formattedUrl repoUrl) = None
          \<or> (\<exists>q. url_pathname (formattedUrl repoUrl) = Some q \<and> length (pathParts q) < 2))
      \<longrightarrow> fetchGitHubIssues url_pathname fetch env clock repoUrl =
            ([], Inl (Instance Error ''Invalid GitHub repository URL format'')))"
proof (intro conjI impI)
  assume "includes_str u ''github.com'' \<and> url_pathname u = Some p \<and> pathParts p = a # b # rest"
  then show "extractRepoInfo url_pathname u = Some \<lparr>owner = a, repo = b\<rparr>"
    by (simp add: extractRepoInfo_two_parts normalizedUrl_github)
next
  assume h: "includes_str (formattedUrl repoUrl) ''github.com''
       \<and> (url_pathname (formattedUrl repoUrl) = None
          \<or> (\<exists>q. url_pathname (formattedUrl repoUrl) = Some q \<and> length (pathParts q) < 2))"
  then have "extractRepoInfo url_pathname (formattedUrl repoUrl) = None"
    by (intro extractRepoInfo_too_short) (simp add: normalizedUrl_github)
  then show "fetchGitHubIssues url_pathname fetch env clock repoUrl =
            ([], Inl (Instance Error ''Invalid GitHub repository URL format''))"
    by (simp add: fetchGitHubIssues_def)
qed

theorem extractRepoInfo_on_github_urls_witness:
  "includes_str ''https://github.com/facebook/react/issues'' ''github.com''
   \<and> example_pathname ''https://github.com/facebook/react/issues'' = Some ''/facebook/react/issues''
   \<and> pathParts ''/facebook/react/issues'' = [''facebook'', ''react'', ''issues'']
   \<and> extractRepoInfo example_pathname ''https://github.com/facebook/react/issues''
       = Some \<lparr>owner = ''facebook'', repo = ''react''\<rparr>
   \<and> formattedUrl ''github.com/facebook'' = ''https://github.com/facebook''
   \<and> includes_str (formattedUrl ''github.com/facebook'') ''github.com''
   \<and> example_pathname (formattedUrl ''github.com/facebook'') = Some ''/facebook''
   \<and> length (pathParts ''/facebook'') < 2
   \<and> fetchGitHubIssues example_pathname (fetch_answers (JObj [(''issues'', JArr [])])) None
        example_clock ''github.com/facebook''
       = ([], Inl (Instance Error ''Invalid GitHub repository URL format''))"
  using extractRepoInfo_on_github_urls
    [of "''https://github.com/facebook/react/issues''" example_pathname "''/facebook/react/issues''"
        "''facebook''" "''react''" "[''issues'']" "''github.com/facebook''"
        "fetch_answers (JObj [(''issues'', JArr [])])" None example_clock]
  by (simp add: example_pathname_def pathParts_def formattedUrl_def)

text \<open>
  A URL without \<^verbatim>\<open>github.com\<close> is judged on \<^verbatim>\<open>https://github.com/\<close> followed by the URL:
  \<^verbatim>\<open>https://foo\<close> has no path segment, yet it is accepted with owner \<^verbatim>\<open>https:\<close> and repo
  \<^verbatim>\<open>foo\<close>, and a request is sent.
\<close>

theorem fetchGitHubIssues_accepts_non_github_counterexample:
  "example_pathname ''https://foo'' = Some ''/''
   \<and> length (pathParts ''/'') < 2
   \<and> fetchGitHubIssues example_pathname (fetch_answers (JObj [(''issues'', JArr [])])) None
        example_clock ''https://foo''
       = ([fetchIssues_request None ''https://github.com/https:/foo''], Inr [])"
  by (simp add: example_pathname_def pathParts_def formattedUrl_def fetchGitHubIssues_def
      extractRepoInfo_def normalizedUrl_def cleanRepoUrl_def fetch_answers_def rethrow_def
      Let_def)





lemma adaptIssues_null:
  "adaptIssues clock k (JNull # xs) =
     Inl (Instance TypeError ''Cannot read properties of null (reading 'title')'')"
  by (simp add: adaptIssue_def read_prop_def quoted_def)




section \<open>Delivery order of the event queue\<close>

lemma onEvent_open:
  "state s \<noteq> Closed \<Longrightarrow>
   onEvent s (c, orig) =
     s\<lparr>events := events s @ [\<lparr>ev_content = c, origin = orig, sequence = length (events s)\<rparr>]\<rparr>"
  by (simp add: onEvent_def session_append_def Let_def)

lemma in_order_attach:
  "map sequence (events s) = [0..<length (events s)] \<Longrightarrow> in_order (attach s)"
  by (simp add: in_order_def attach_def subscribe_def)

lemma in_order_step: "in_order r \<Longrightarrow> in_order (step r a)"
proof (cases r)
  case (Pair s sub)
  assume io: "in_order r"
  show ?thesis
  proof (cases a)
    case (Append c orig)
    show ?thesis
    proof (cases "state s = Closed")
      case True
      with io Pair Append show ?thesis by (simp add: onEvent_closed)
    next
      case False
      with io Pair Append show ?thesis by (simp add: onEvent_open in_order_def)
    qed
  next
    case Poll
    with io Pair show ?thesis
      by (auto simp: in_order_def cursor_next_def take_Suc_conv_app_nth)
  qed
qed

lemma in_order_foldl: "in_order r \<Longrightarrow> in_order (foldl step r acts)"
  by (induction acts arbitrary: r) (simp_all add: in_order_step)

lemma state_step: "state (fst (step r a)) = state (fst r)"
  by (cases r; cases a)
     (auto simp: onEvent_def session_append_def Let_def cursor_next_def split: cursor_step.splits)

lemma events_step:
  "state (fst r) \<noteq> Closed \<Longrightarrow>
   \<exists>new. events (fst (step r a)) = events (fst r) @ new
     \<and> map (\<lambda>e. (ev_content e, origin e)) new = appended [a]"
  by (cases r; cases a) (auto simp: onEvent_open cursor_next_def)

lemma appended_append: "appended (as @ bs) = appended as @ appended bs"
  by (induction as rule: appended.induct) simp_all

lemma events_foldl:
  "state (fst r) \<noteq> Closed \<Longrightarrow>
   \<exists>live. events (fst (foldl step r acts)) = events (fst r) @ live
     \<and> map (\<lambda>e. (ev_content e, origin e)) live = appended acts"
proof (induction acts arbitrary: r)
  case Nil
  then show ?case by simp
next
  case (Cons a acts)
  from events_step [OF Cons.prems, of a] obtain new where
    new: "events (fst (step r a)) = events (fst r) @ new"
      "map (\<lambda>e. (ev_content e, origin e)) new = appended [a]" by blast
  from Cons.prems have "state (fst (step r a)) \<noteq> Closed" by (simp add: state_step)
  from Cons.IH [OF this] obtain live where
    live: "events (fst (foldl step (step r a) acts)) = events (fst (step r a)) @ live"
      "map (\<lambda>e. (ev_content e, origin e)) live = appended acts" by blast
  have "appended (a # acts) = appended [a] @ appended acts"
    using appended_append [of "[a]" acts] by simp
  with new live show ?case by (intro exI [of _ "new @ live"]) simp
qed

lemma drain:
  "in_order (s, sub) \<Longrightarrow> n = length (events s) - cursor sub \<Longrightarrow>
   foldl step (s, sub) (replicate n Poll) =
     (s, \<lparr>cursor = length (events s), received = events s\<rparr>)"
proof (induction n arbitrary: sub)
  case 0
  then show ?case by (simp add: in_order_def)
next
  case (Suc n)
  then have lt: "cursor sub < length (events s)" by simp
  let ?sub' = "\<lparr>cursor = Suc (cursor sub), received = received sub @ [events s ! cursor sub]\<rparr>"
  from lt have st: "step (s, sub) Poll = (s, ?sub')" by (simp add: cursor_next_def)
  from in_order_step [OF Suc.prems(1), of Poll] st have "in_order (s, ?sub')" by simp
  moreover from Suc.prems(2) have "n = length (events s) - cursor ?sub'" by simp
  ultimately have "foldl step (s, ?sub') (replicate n Poll) =
     (s, \<lparr>cursor = length (events s), received = events s\<rparr>)" by (rule Suc.IH)
  with st show ?case by simp
qed

lemma onEvent_sequenced:
  "map sequence (events s) = [0..<length (events s)] \<Longrightarrow>
   map sequence (events (onEvent s ev)) = [0..<length (events (onEvent s ev))]"
  by (cases ev; cases "state s = Closed") (simp_all add: onEvent_closed onEvent_open)

lemma appends_sequenced:
  "map sequence (events s) = [0..<length (events s)] \<Longrightarrow>
   map sequence (events (foldl onEvent s evs)) = [0..<length (events (foldl onEvent s evs))]"
  by (induction evs arbitrary: s) (simp_all add: onEvent_sequenced)

lemma appends_state: "state (foldl onEvent s evs) = state s"
proof (induction evs arbitrary: s)
  case Nil
  then show ?case by simp
next
  case (Cons ev evs)
  have "state (onEvent s ev) = state s"
    by (cases ev; cases "state s = Closed") (simp_all add: onEvent_closed onEvent_open)
  with Cons show ?case by simp
qed

lemma created_session_sequenced:
  "map sequence (events (foldl onEvent (create fresh_id now) evs))
     = [0..<length (events (foldl onEvent (create fresh_id now) evs))]
   \<and> state (foldl onEvent (create fresh_id now) evs) \<noteq> Closed"
  by (simp add: appends_sequenced appends_state create_def)

text \<open>
  C1. Take a session that is not closed and whose stored events are numbered from zero
  without gaps (every session made by \<open>create\<close> and appends is), attach a subscriber, and
  let any interleaving of appends and cursor reads follow. Then the stored events are the
  buffered ones followed by the appended ones, in the order of the appends; what the
  subscriber has received is an initial part of that list, so every buffered event comes
  before any live one, and the sequence numbers received are 0, 1, 2, ... without gap or
  repetition; and once the subscriber has read on to the end it has received exactly the
  stored events.
\<close>

theorem cursor_yields_events_in_sequence_order:
  assumes "map sequence (events s) = [0..<length (events s)]"
    and "state s \<noteq> Closed"
  shows "(\<exists>live. events (fst (run s acts)) = events s @ live
            \<and> map (\<lambda>e. (ev_content e, origin e)) live = appended acts
            \<and> received (snd (run s acts)) = take (cursor (snd (run s acts))) (events s @ live))
    \<and> map sequence (events (fst (run s acts))) = [0..<length (events (fst (run s acts)))]
    \<and> map sequence (received (snd (run s acts))) = [0..<length (received (snd (run s acts)))]
    \<and> received (snd (foldl step (run s acts)
          (replicate (length (events (fst (run s acts))) - cursor (snd (run s acts))) Poll)))
        = events (fst (run s acts))"
proof -
  have io: "in_order (run s acts)"
    unfolding run_def by (intro in_order_foldl in_order_attach assms(1))
  from assms(2) have "state (fst (attach s)) \<noteq> Closed" by (simp add: attach_def)
  from events_foldl [OF this, of acts] obtain live where
    live: "events (fst (run s acts)) = events s @ live"
      "map (\<lambda>e. (ev_content e, origin e)) live = appended acts"
    by (auto simp: run_def attach_def)
  from io have rc: "received (snd (run s acts))
      = take (cursor (snd (run s acts))) (events (fst (run s acts)))"
    and sq: "map sequence (events (fst (run s acts))) = [0..<length (events (fst (run s acts)))]"
    and le: "cursor (snd (run s acts)) \<le> length (events (fst (run s acts)))"
    by (simp_all add: in_order_def)
  have "map sequence (received (snd (run s acts)))
      = take (cursor (snd (run s acts))) (map sequence (events (fst (run s acts))))"
    by (simp add: rc take_map)
  also have "\<dots> = [0..<cursor (snd (run s acts))]"
    using le by (simp add: sq take_upt)
  also have "cursor (snd (run s acts)) = length (received (snd (run s acts)))"
    using le by (simp add: rc)
  finally have sr: "map sequence (received (snd (run s acts)))
      = [0..<length (received (snd (run s acts)))]" .
  obtain s' sub' where r: "run s acts = (s', sub')" by (cases "run s acts")
  with io have "in_order (s', sub')" by simp
  from drain [OF this refl] r have dr: "received (snd (foldl step (run s acts)
          (replicate (length (events (fst (run s acts))) - cursor (snd (run s acts))) Poll)))
        = events (fst (run s acts))" by simp
  from live rc sq sr dr show ?thesis by auto
qed

theorem cursor_yields_events_in_sequence_order_witness:
  "map sequence (events example_session) = [0..<length (events example_session)]
   \<and> state example_session \<noteq> Closed
   \<and> events example_session
       = [\<lparr>ev_content = ''starting analysis'', origin = System, sequence = 0\<rparr>]
   \<and> received (snd (run example_session
        [Append ''found root cause'' Agent, Poll, Append ''done'' Agent, Poll]))
       = [\<lparr>ev_content = ''starting analysis'', origin = System, sequence = 0\<rparr>,
          \<lparr>ev_content = ''found root cause'', origin = Agent, sequence = 1\<rparr>]
   \<and> received (snd (foldl step
        (run example_session [Append ''found root cause'' Agent, Poll, Append ''done'' Agent, Poll])
        [Poll]))
       = [\<lparr>ev_content = ''starting analysis'', origin = System, sequence = 0\<rparr>,
          \<lparr>ev_content = ''found root cause'', origin = Agent, sequence = 1\<rparr>,
          \<lparr>ev_content = ''done'', origin = Agent, sequence = 2\<rparr>]"
proof -
  have ev: "events example_session
       = [\<lparr>ev_content = ''starting analysis'', origin = System, sequence = 0\<rparr>]"
    and st: "state example_session \<noteq> Closed"
    by (simp_all add: example_session_def create_def onEvent_def session_append_def Let_def)
  from ev have sq: "map sequence (events example_session) = [0..<length (events example_session)]"
    by simp
  have r: "run example_session
        [Append ''found root cause'' Agent, Poll, Append ''done'' Agent, Poll]
      = (\<lparr>sid = ''s1'', state = Pending,
           events = [\<lparr>ev_content = ''starting analysis'', origin = System, sequence = 0\<rparr>,
                     \<lparr>ev_content = ''found root cause'', origin = Agent, sequence = 1\<rparr>,
                     \<lparr>ev_content = ''done'', origin = Agent, sequence = 2\<rparr>],
           subscriberAttached = False, createdAt = 0\<rparr>,
         \<lparr>cursor = 2,
           received = [\<lparr>ev_content = ''starting analysis'', origin = System, sequence = 0\<rparr>,
                       \<lparr>ev_content = ''found root cause'', origin = Agent, sequence = 1\<rparr>]\<rparr>)"
    by (simp add: run_def attach_def subscribe_def example_session_def create_def onEvent_def
        session_append_def cursor_next_def Let_def)
  from cursor_yields_events_in_sequence_order [OF sq st,
      of "[Append ''found root cause'' Agent, Poll, Append ''done'' Agent, Poll]"]
  show ?thesis using ev st sq by (simp add: r)
qed

end
